theory Spec2Isabelle
  imports Complex_Main
begin

section \<open>Values exchanged with the backend\<close>

text \<open>
  The hooks read the parsed body of an axios response (\<^verbatim>\<open>response.data\<close>, of type
  \<^verbatim>\<open>any\<close>) and store parts of it in component state without checking their shape, so
  the values the state holds at run time are arbitrary JavaScript values.  They are
  modelled by one datatype.  A number is modelled by its exact value: every finite
  double is a rational.  JSON carries no NaN; a numeric literal beyond the range of
  the doubles, which the parser reads as an infinity, is left out.  A string is a
  list of characters, each read as one code unit below 256.  An object is the list of
  its members; a name that occurs twice stands for its first occurrence.
\<close>

datatype json =
    JUndefined
  | JNull
  | JBool bool
  | JNum rat
  | JStr string
  | JArr "json list"
  | JObj "(string \<times> json) list"

text \<open>The coercion to a boolean that \<^verbatim>\<open>if (v)\<close>, \<^verbatim>\<open>!v\<close>, \<^verbatim>\<open>a && b\<close>, \<^verbatim>\<open>a || b\<close> and
  \<^verbatim>\<open>Boolean(v)\<close> apply.\<close>

fun truthy :: "json \<Rightarrow> bool" where
  "truthy JUndefined = False"
| "truthy JNull = False"
| "truthy (JBool b) = b"
| "truthy (JNum n) = (n \<noteq> 0)"
| "truthy (JStr s) = (s \<noteq> [])"
| "truthy (JArr xs) = True"
| "truthy (JObj kvs) = True"

definition nullish :: "json \<Rightarrow> bool" where
  "nullish v = (v = JUndefined \<or> v = JNull)"

text \<open>
  \<^verbatim>\<open>v.k\<close> for a value \<open>v\<close> that is neither \<^verbatim>\<open>undefined\<close> nor \<^verbatim>\<open>null\<close>: the member of an
  object, \<^verbatim>\<open>undefined\<close> when the object has no such member or \<open>v\<close> is a primitive or an
  array (none of the member names the hooks read is a built-in property of those).
  On \<^verbatim>\<open>undefined\<close> and \<^verbatim>\<open>null\<close> the read throws a TypeError; every function below tests
  \<open>nullish\<close> first wherever the source can reach such a read.
\<close>

definition js_get :: "json \<Rightarrow> string \<Rightarrow> json" where
  "js_get v k =
     (case v of
        JObj kvs \<Rightarrow> (case map_of kvs k of Some x \<Rightarrow> x | None \<Rightarrow> JUndefined)
      | _ \<Rightarrow> JUndefined)"

text \<open>\<^verbatim>\<open>v?.k\<close>: \<^verbatim>\<open>undefined\<close> when \<open>v\<close> is \<^verbatim>\<open>undefined\<close> or \<^verbatim>\<open>null\<close>.\<close>

definition js_get_opt :: "json \<Rightarrow> string \<Rightarrow> json" where
  "js_get_opt v k = (if nullish v then JUndefined else js_get v k)"

text \<open>\<^verbatim>\<open>a || b\<close>.\<close>

definition js_or :: "json \<Rightarrow> json \<Rightarrow> json" where
  "js_or a b = (if truthy a then a else b)"

text \<open>\<^verbatim>\<open>Array.isArray(v) ? v : []\<close>.\<close>

definition array_or_empty :: "json \<Rightarrow> json" where
  "array_or_empty v = (case v of JArr xs \<Rightarrow> JArr xs | _ \<Rightarrow> JArr [])"

text \<open>\<^verbatim>\<open>Array.isArray(v)\<close>.\<close>

fun is_array :: "json \<Rightarrow> bool" where
  "is_array (JArr xs) = True"
| "is_array v = False"

text \<open>The member names of an object, in the order of the literal that built it.\<close>

definition members :: "json \<Rightarrow> string list" where
  "members v = (case v of JObj kvs \<Rightarrow> map fst kvs | _ \<Rightarrow> [])"

text \<open>A thrown value: an \<^verbatim>\<open>Error\<close> instance with its message, or anything else.\<close>

datatype thrown = ErrorObj string | NonError

text \<open>\<^verbatim>\<open>error instanceof Error ? error.message : 'Unknown error'\<close>.\<close>

fun errorMsg :: "thrown \<Rightarrow> string" where
  "errorMsg (ErrorObj m) = m"
| "errorMsg NonError = ''Unknown error''"

section \<open>Configuration, environment and observable effects\<close>

text \<open>\<^verbatim>\<open>config.STORAGE_KEYS.AUTH_TOKEN\<close>.\<close>

definition AUTH_TOKEN :: string where
  "AUTH_TOKEN = ''desirabledifficult_auth_token''"

text \<open>
  What one call of a hook function meets outside the component: the user of the
  authentication context, the base URL of the backend (it depends on the build), the
  outcome of the awaited token read, and the outcome of the awaited HTTP call (a
  thrown value, or the parsed body \<^verbatim>\<open>response.data\<close>).
\<close>

record env =
  user :: json
  API_URL :: string
  token_read :: "thrown + string option"
  reply :: "thrown + json"

text \<open>
  The effects a call has outside the component state, in the order they happen.
  \<open>Background\<close> marks a call of an async function whose promise is not awaited: the
  caller runs it up to its first \<^verbatim>\<open>await\<close> and goes on.
\<close>

datatype task = GeneratePracticeBatch | GeneratePractice

datatype event =
    Alert string string
  | StorageGetItem string
  | SecureStoreGetItemAsync string
  | HttpPost string json string
  | HttpGet string string
  | Background task
  | SetTimeout nat

text \<open>The events that are requests to the backend.\<close>

fun is_http :: "event \<Rightarrow> bool" where
  "is_http (HttpPost u b h) = True"
| "is_http (HttpGet u h) = True"
| "is_http ev = False"

text \<open>The template \<^verbatim>\<open>`Bearer ${token}`\<close>; a missing token prints as \<^verbatim>\<open>null\<close>.\<close>

definition bearer :: "string option \<Rightarrow> string" where
  "bearer token = ''Bearer '' @ (case token of Some t \<Rightarrow> t | None \<Rightarrow> ''null'')"

section \<open>Numbers and their decimal form\<close>

























section \<open>The practice hook\<close>

datatype DifficultyTrend = increasing | decreasing | stable


text \<open>\<^verbatim>\<open>FeedbackResponse\<close>; its member \<^verbatim>\<open>feedback\<close> is named \<open>feedbackText\<close> here, after the
  variable it is filled from.\<close>

record FeedbackResponse =
  isCorrect :: bool
  feedbackText :: json

text \<open>
  The state of \<^verbatim>\<open>usePractice\<close>: one field per \<^verbatim>\<open>useState\<close>, and the \<^verbatim>\<open>useRef\<close>.
  \<open>currentPractice\<close> is \<open>JNull\<close> when there is no item.
\<close>

record practice_state =
  loading :: bool
  generatingBatch :: bool
  currentPractice :: json
  userAnswer :: string
  feedback :: "FeedbackResponse option"
  errorMessage :: "string option"
  questionQueue :: "json list"
  adjusting :: bool
  difficultyTrend :: DifficultyTrend
  previousDifficultyRef :: json
  difficultyChange :: "string option"
  feedbackQuestion :: string
  feedbackAnswer :: json
  askingQuestion :: bool

text \<open>
  A call in progress: the state with the updates made so far, and the effects so far.
  A hook function reads state through the closure of the render that created it (the
  snapshot, its argument \<open>snap\<close>), and its setters write to the pending state \<open>st\<close>.
\<close>

record run =
  st :: practice_state
  trace :: "event list"

definition start :: "practice_state \<Rightarrow> run" where
  "start snap = \<lparr>st = snap, trace = []\<rparr>"

definition emit :: "event \<Rightarrow> run \<Rightarrow> run" where
  "emit e r = r\<lparr>trace := trace r @ [e]\<rparr>"

definition setLoading :: "bool \<Rightarrow> run \<Rightarrow> run" where
  "setLoading b r = r\<lparr>st := (st r)\<lparr>loading := b\<rparr>\<rparr>"

definition setGeneratingBatch :: "bool \<Rightarrow> run \<Rightarrow> run" where
  "setGeneratingBatch b r = r\<lparr>st := (st r)\<lparr>generatingBatch := b\<rparr>\<rparr>"

definition setCurrentPractice :: "json \<Rightarrow> run \<Rightarrow> run" where
  "setCurrentPractice p r = r\<lparr>st := (st r)\<lparr>currentPractice := p\<rparr>\<rparr>"

definition setUserAnswer :: "string \<Rightarrow> run \<Rightarrow> run" where
  "setUserAnswer a r = r\<lparr>st := (st r)\<lparr>userAnswer := a\<rparr>\<rparr>"

definition setFeedback :: "FeedbackResponse option \<Rightarrow> run \<Rightarrow> run" where
  "setFeedback f r = r\<lparr>st := (st r)\<lparr>feedback := f\<rparr>\<rparr>"

definition setErrorMessage :: "string option \<Rightarrow> run \<Rightarrow> run" where
  "setErrorMessage m r = r\<lparr>st := (st r)\<lparr>errorMessage := m\<rparr>\<rparr>"

definition setQuestionQueue :: "json list \<Rightarrow> run \<Rightarrow> run" where
  "setQuestionQueue q r = r\<lparr>st := (st r)\<lparr>questionQueue := q\<rparr>\<rparr>"

definition setAdjusting :: "bool \<Rightarrow> run \<Rightarrow> run" where
  "setAdjusting b r = r\<lparr>st := (st r)\<lparr>adjusting := b\<rparr>\<rparr>"

definition setDifficultyTrend :: "DifficultyTrend \<Rightarrow> run \<Rightarrow> run" where
  "setDifficultyTrend t r = r\<lparr>st := (st r)\<lparr>difficultyTrend := t\<rparr>\<rparr>"

definition setDifficultyChange :: "string option \<Rightarrow> run \<Rightarrow> run" where
  "setDifficultyChange c r = r\<lparr>st := (st r)\<lparr>difficultyChange := c\<rparr>\<rparr>"

definition setFeedbackQuestion :: "string \<Rightarrow> run \<Rightarrow> run" where
  "setFeedbackQuestion q r = r\<lparr>st := (st r)\<lparr>feedbackQuestion := q\<rparr>\<rparr>"

definition setFeedbackAnswer :: "json \<Rightarrow> run \<Rightarrow> run" where
  "setFeedbackAnswer a r = r\<lparr>st := (st r)\<lparr>feedbackAnswer := a\<rparr>\<rparr>"

definition setAskingQuestion :: "bool \<Rightarrow> run \<Rightarrow> run" where
  "setAskingQuestion b r = r\<lparr>st := (st r)\<lparr>askingQuestion := b\<rparr>\<rparr>"

text \<open>The body both \<^verbatim>\<open>generatePractice\<close> and \<^verbatim>\<open>generatePracticeBatch\<close> post.\<close>

definition generate_body :: "json \<Rightarrow> json" where
  "generate_body u =
     JObj [(''userId'', js_get u ''_id''), (''random'', JBool True), (''batchSize'', JNum 5)]"

subsection \<open>generatePracticeBatch\<close>

text \<open>
  The part of \<^verbatim>\<open>generatePracticeBatch\<close> that runs before its first \<^verbatim>\<open>await\<close>: the guard,
  \<^verbatim>\<open>setGeneratingBatch(true)\<close> and the start of the token read.  The result tells
  whether the call is suspended at the \<^verbatim>\<open>await\<close> (\<open>True\<close>) or has returned.
\<close>

definition generatePracticeBatch_begin :: "env \<Rightarrow> practice_state \<Rightarrow> run \<Rightarrow> run \<times> bool" where
  "generatePracticeBatch_begin e snap r =
     (if \<not> truthy (user e) \<or> generatingBatch snap then (r, False)
      else (emit (StorageGetItem AUTH_TOKEN) (setGeneratingBatch True r), True))"

text \<open>
  The rest of the call, from the token read on.  Neither the response nor a thrown
  value has an effect: the \<^verbatim>\<open>if\<close> and the \<^verbatim>\<open>catch\<close> have empty bodies, and the \<^verbatim>\<open>finally\<close>
  clears the flag.
\<close>

definition generatePracticeBatch_resume :: "env \<Rightarrow> run \<Rightarrow> run" where
  "generatePracticeBatch_resume e r =
     (case token_read e of
        Inl err \<Rightarrow> setGeneratingBatch False r
      | Inr token \<Rightarrow>
          (let r1 = emit (HttpPost (API_URL e @ ''/api/practice/generate'')
                            (generate_body (user e)) (bearer token)) r
           in case reply e of
                Inl err \<Rightarrow> setGeneratingBatch False r1
              | Inr body \<Rightarrow> setGeneratingBatch False r1))"

text \<open>One call of \<^verbatim>\<open>generatePracticeBatch\<close>, run until its promise settles.\<close>

definition generatePracticeBatch :: "env \<Rightarrow> practice_state \<Rightarrow> run" where
  "generatePracticeBatch e snap =
     (case generatePracticeBatch_begin e snap (start snap) of
        (r, suspended) \<Rightarrow> if suspended then generatePracticeBatch_resume e r else r)"

subsection \<open>generatePractice\<close>

text \<open>The item built from \<^verbatim>\<open>response.data.data\<close> (lines 77 to 87), for a truthy \<open>d\<close>.\<close>

definition practice_of :: "json \<Rightarrow> json" where
  "practice_of d =
     JObj [(''_id'', js_or (js_get d ''_id'') (JStr '''')),
           (''content'', js_or (js_get d ''content'') (JStr '''')),
           (''translation'', js_or (js_get d ''translation'') (JStr '''')),
           (''type'', js_or (js_get d ''type'') (JStr ''vocabulary'')),
           (''difficulty'', js_or (js_get d ''difficulty'') (JNum 1)),
           (''complexity'', js_or (js_get d ''complexity'') (JNum 1)),
           (''categories'', array_or_empty (js_get d ''categories'')),
           (''questionType'', js_or (js_get d ''questionType'') (JStr '''')),
           (''options'', array_or_empty (js_get d ''options''))]"

text \<open>The members the literal gives a practice item.\<close>

definition practice_keys :: "string list" where
  "practice_keys = [''_id'', ''content'', ''translation'', ''type'', ''difficulty'',
                    ''complexity'', ''categories'', ''questionType'', ''options'']"

text \<open>The five setters under the comment "Clear all feedback-related state".\<close>

definition clear_feedback :: "run \<Rightarrow> run" where
  "clear_feedback r =
     setAskingQuestion False (setFeedbackAnswer JNull (setFeedbackQuestion ''''
       (setUserAnswer '''' (setFeedback None r))))"

text \<open>The \<^verbatim>\<open>catch\<close> block of \<^verbatim>\<open>generatePractice\<close>, followed by its \<^verbatim>\<open>finally\<close>.\<close>

definition generatePractice_catch :: "thrown \<Rightarrow> run \<Rightarrow> run" where
  "generatePractice_catch err r =
     setLoading False
       (emit (Alert ''Error'' ''Failed to generate practice. Please try again.'')
          (setErrorMessage (Some (''Failed to generate practice: '' @ errorMsg err)) r))"

text \<open>
  \<^verbatim>\<open>generatePractice\<close> up to its first \<^verbatim>\<open>await\<close>.  On the two paths that return before
  it (no user; a question taken from the queue) the \<^verbatim>\<open>finally\<close> has run and the result
  is marked \<open>False\<close>.  The call of \<^verbatim>\<open>generatePracticeBatch\<close> on line 53 is not awaited.
\<close>

definition generatePractice_begin ::
  "env \<Rightarrow> bool \<Rightarrow> practice_state \<Rightarrow> run \<Rightarrow> run \<times> bool" where
  "generatePractice_begin e forceNew snap r =
     (let r1 = setErrorMessage None r in
      if \<not> truthy (user e) then
        (setLoading False (emit (Alert ''Error'' ''You must be logged in to practice'') r1), False)
      else
        let r2 = clear_feedback r1 in
        if \<not> forceNew \<and> length (questionQueue snap) > 0 then
          let nextQuestion = questionQueue snap ! 0;
              remainingQuestions = drop 1 (questionQueue snap);
              r3 = setQuestionQueue remainingQuestions (setCurrentPractice nextQuestion r2);
              r4 = (if length remainingQuestions < 2 \<and> \<not> generatingBatch snap
                    then fst (generatePracticeBatch_begin e snap
                                (emit (Background GeneratePracticeBatch) r3))
                    else r3)
          in (setLoading False r4, False)
        else (emit (StorageGetItem AUTH_TOKEN) (setLoading True r2), True))"

text \<open>The rest of \<^verbatim>\<open>generatePractice\<close>, from the token read on.\<close>

definition generatePractice_resume :: "env \<Rightarrow> run \<Rightarrow> run" where
  "generatePractice_resume e r =
     (case token_read e of
        Inl err \<Rightarrow> generatePractice_catch err r
      | Inr token \<Rightarrow>
          (let r1 = emit (HttpPost (API_URL e @ ''/api/practice/generate'')
                            (generate_body (user e)) (bearer token)) r
           in case reply e of
                Inl err \<Rightarrow> generatePractice_catch err r1
              | Inr body \<Rightarrow>
                  if truthy (js_get_opt body ''success'') \<and> truthy (js_get_opt body ''data'')
                  then setLoading False
                         (setCurrentPractice (practice_of (js_get body ''data'')) r1)
                  else generatePractice_catch (ErrorObj ''Invalid practice data received'') r1))"

text \<open>One call of \<^verbatim>\<open>generatePractice(forceNew)\<close>, run until its promise settles.\<close>

definition generatePractice :: "env \<Rightarrow> bool \<Rightarrow> practice_state \<Rightarrow> run" where
  "generatePractice e forceNew snap =
     (case generatePractice_begin e forceNew snap (start snap) of
        (r, suspended) \<Rightarrow> if suspended then generatePractice_resume e r else r)"

text \<open>
  The items the user is shown when \<^verbatim>\<open>generatePractice()\<close> is called \<open>n\<close> times in a row,
  each call made by the render that follows the one before.
\<close>

fun presented :: "env \<Rightarrow> nat \<Rightarrow> practice_state \<Rightarrow> json list" where
  "presented e 0 s = []"
| "presented e (Suc n) s =
     (let s' = st (generatePractice e False s) in currentPractice s' # presented e n s')"

subsection \<open>submitAnswer\<close>

text \<open>The code units below 256 that \<^verbatim>\<open>String.prototype.trim\<close> removes: TAB, LF, VT, FF,
  CR, SP and NBSP.\<close>

definition js_whitespace :: "char \<Rightarrow> bool" where
  "js_whitespace c =
     (c \<in> set [CHR 0x09, CHR 0x0A, CHR 0x0B, CHR 0x0C, CHR 0x0D, CHR 0x20, CHR 0xA0])"

definition trim :: "string \<Rightarrow> string" where
  "trim s = rev (dropWhile js_whitespace (rev (dropWhile js_whitespace s)))"

definition submitAnswer_catch :: "thrown \<Rightarrow> run \<Rightarrow> run" where
  "submitAnswer_catch err r =
     setLoading False
       (emit (Alert ''Error'' ''Failed to submit answer. Please try again.'')
          (setErrorMessage (Some (''Failed to submit answer: '' @ errorMsg err)) r))"

text \<open>
  What \<^verbatim>\<open>submitAnswer\<close> does with a response body (lines 160 to 188).  The queue is
  extended by a functional update, so it reads the pending queue, not the snapshot.
\<close>

definition submitAnswer_response :: "json \<Rightarrow> run \<Rightarrow> run" where
  "submitAnswer_response body r =
     (if truthy (js_get_opt body ''success'') \<and> truthy (js_get_opt body ''data'') then
        let d = js_get body ''data'';
            r1 = (if truthy (js_get d ''nextPractice'')
                  then setQuestionQueue (questionQueue (st r) @ [js_get d ''nextPractice'']) r
                  else r)
        in if truthy (js_get d ''evaluation'') then
             let evaluation = js_get d ''evaluation'' in
             setFeedback
               (Some \<lparr>isCorrect = truthy (js_get evaluation ''isCorrect''),
                      feedbackText = (if js_get evaluation ''feedback'' \<noteq> JUndefined
                                      then js_get evaluation ''feedback'' else JStr '''')\<rparr>) r1
           else setFeedback (Some \<lparr>isCorrect = False, feedbackText = JStr ''''\<rparr>) r1
      else setFeedback (Some \<lparr>isCorrect = False, feedbackText = JStr ''''\<rparr>) r)"

text \<open>One call of \<^verbatim>\<open>submitAnswer\<close>, run until its promise settles.\<close>

definition submitAnswer :: "env \<Rightarrow> practice_state \<Rightarrow> run" where
  "submitAnswer e snap =
     (let r1 = setErrorMessage None (start snap) in
      if \<not> truthy (currentPractice snap) then
        setLoading False (emit (Alert ''Error'' ''No practice question available'') r1)
      else if userAnswer snap = [] \<or> trim (userAnswer snap) = [] then
        setLoading False (emit (Alert ''Error'' ''Please provide an answer'') r1)
      else
        let r2 = emit (StorageGetItem AUTH_TOKEN) (setLoading True r1) in
        case token_read e of
          Inl err \<Rightarrow> submitAnswer_catch err r2
        | Inr token \<Rightarrow>
            (let r3 = emit (HttpPost (API_URL e @ ''/api/practice/submit'')
                              (JObj [(''practiceId'', js_get (currentPractice snap) ''_id''),
                                     (''userAnswer'', JStr (userAnswer snap))])
                              (bearer token)) r2
             in case reply e of
                  Inl err \<Rightarrow> submitAnswer_catch err r3
                | Inr body \<Rightarrow> setLoading False (submitAnswer_response body r3)))"

subsection \<open>adjustDifficulty\<close>







subsection \<open>The difficulty-trend effect\<close>

text \<open>
  \<^verbatim>\<open>a < b\<close> and \<^verbatim>\<open>a > b\<close>.  On two numbers they are the order of the numbers.  On any
  other operands the engine coerces them first (ToPrimitive, ToNumber); that
  comparison is the parameter \<open>lt_other\<close>.  \<^verbatim>\<open>a > b\<close> is \<^verbatim>\<open>b < a\<close>.
\<close>

definition js_lt :: "(json \<Rightarrow> json \<Rightarrow> bool) \<Rightarrow> json \<Rightarrow> json \<Rightarrow> bool" where
  "js_lt lt_other a b =
     (case (a, b) of (JNum x, JNum y) \<Rightarrow> x < y | _ \<Rightarrow> lt_other a b)"

definition js_gt :: "(json \<Rightarrow> json \<Rightarrow> bool) \<Rightarrow> json \<Rightarrow> json \<Rightarrow> bool" where
  "js_gt lt_other a b = js_lt lt_other b a"

text \<open>The body of the effect that runs when \<^verbatim>\<open>currentPractice\<close> has changed (lines 339
  to 352).\<close>

definition difficultyTrendEffect ::
  "(json \<Rightarrow> json \<Rightarrow> bool) \<Rightarrow> practice_state \<Rightarrow> practice_state" where
  "difficultyTrendEffect lt_other s =
     (if truthy (currentPractice s) \<and> truthy (js_get (currentPractice s) ''difficulty'') then
        let d = js_get (currentPractice s) ''difficulty'';
            s1 = (if previousDifficultyRef s \<noteq> JNull then
                    (if js_gt lt_other d (previousDifficultyRef s)
                       then s\<lparr>difficultyTrend := increasing\<rparr>
                     else if js_lt lt_other d (previousDifficultyRef s)
                       then s\<lparr>difficultyTrend := decreasing\<rparr>
                     else s\<lparr>difficultyTrend := stable\<rparr>)
                  else s)
        in s1\<lparr>previousDifficultyRef := d\<rparr>
      else s)"

subsection \<open>The members usePractice returns\<close>

datatype member = StateValue | Setter | Function

text \<open>The object literal \<^verbatim>\<open>usePractice\<close> returns (lines 361 to 384), by member name.\<close>

definition usePractice_return :: "(string \<times> member) list" where
  "usePractice_return =
     [(''loading'', StateValue), (''generatingBatch'', StateValue),
      (''currentPractice'', StateValue), (''userAnswer'', StateValue),
      (''feedback'', StateValue), (''errorMessage'', StateValue),
      (''adjusting'', StateValue), (''difficultyTrend'', StateValue),
      (''difficultyChange'', StateValue), (''feedbackQuestion'', StateValue),
      (''feedbackAnswer'', StateValue), (''askingQuestion'', StateValue),
      (''setUserAnswer'', Setter), (''setFeedbackQuestion'', Setter),
      (''generatePractice'', Function), (''submitAnswer'', Function),
      (''handleNextPractice'', Function), (''showAdjustmentDialog'', Function),
      (''askFeedbackQuestion'', Function), (''adjustDifficulty'', Function)]"

text \<open>The names \<^verbatim>\<open>PracticeScreen\<close> destructures from \<^verbatim>\<open>usePractice()\<close> (lines 24 to 48 of
  the practice tab).\<close>

definition PracticeScreen_destructured :: "string list" where
  "PracticeScreen_destructured =
     [''loading'', ''generatingBatch'', ''currentPractice'', ''userAnswer'', ''feedback'',
      ''errorMessage'', ''adjusting'', ''difficultyTrend'', ''difficultyChange'',
      ''complexityChange'', ''feedbackQuestion'', ''feedbackAnswer'', ''askingQuestion'',
      ''adjustmentMode'', ''setUserAnswer'', ''setFeedbackQuestion'', ''generatePractice'',
      ''submitAnswer'', ''handleNextPractice'', ''showAdjustmentDialog'',
      ''askFollowUpQuestion'']"

text \<open>The names the \<^verbatim>\<open>Practice\<close> component destructures (lines 11 to 35).\<close>

definition Practice_destructured :: "string list" where
  "Practice_destructured =
     [''currentPractice'', ''userAnswer'', ''setUserAnswer'', ''loading'', ''submitAnswer'',
      ''feedback'', ''generatePractice'', ''feedbackQuestion'', ''setFeedbackQuestion'',
      ''askingQuestion'', ''errorMessage'', ''difficultyTrend'', ''difficultyChange'',
      ''complexityChange'', ''adjusting'', ''adjustmentMode'', ''showAdjustmentDialog'',
      ''showAdjustmentModal'', ''setShowAdjustmentModal'', ''enterAdjustmentMode'',
      ''handleNextPractice'', ''askFollowUpQuestion'', ''feedbackAnswer'']"

text \<open>Destructuring \<^verbatim>\<open>const { k } = obj\<close>: the member, \<open>None\<close> for \<^verbatim>\<open>undefined\<close>.\<close>

definition destructure :: "(string \<times> member) list \<Rightarrow> string \<Rightarrow> member option" where
  "destructure obj k = map_of obj k"

section \<open>The profile hook and the profile screen\<close>

text \<open>
  The state of \<^verbatim>\<open>useProfile\<close>.  Its \<^verbatim>\<open>loading\<close> and \<^verbatim>\<open>error\<close> are named \<open>loadingP\<close> and
  \<open>errorP\<close> here; \<open>profile\<close> is \<open>JNull\<close> before the first load.
\<close>

record profile_state =
  loadingP :: bool
  profile :: json
  errorP :: "string option"
  selectedLanguage :: json

record profile_run =
  pst :: profile_state
  ptrace :: "event list"

definition pemit :: "event \<Rightarrow> profile_run \<Rightarrow> profile_run" where
  "pemit e r = r\<lparr>ptrace := ptrace r @ [e]\<rparr>"

definition setLoadingP :: "bool \<Rightarrow> profile_run \<Rightarrow> profile_run" where
  "setLoadingP b r = r\<lparr>pst := (pst r)\<lparr>loadingP := b\<rparr>\<rparr>"

definition setProfile :: "json \<Rightarrow> profile_run \<Rightarrow> profile_run" where
  "setProfile p r = r\<lparr>pst := (pst r)\<lparr>profile := p\<rparr>\<rparr>"

definition setError :: "string option \<Rightarrow> profile_run \<Rightarrow> profile_run" where
  "setError m r = r\<lparr>pst := (pst r)\<lparr>errorP := m\<rparr>\<rparr>"

definition setSelectedLanguage :: "json \<Rightarrow> profile_run \<Rightarrow> profile_run" where
  "setSelectedLanguage l r = r\<lparr>pst := (pst r)\<lparr>selectedLanguage := l\<rparr>\<rparr>"

text \<open>The \<^verbatim>\<open>catch\<close> block of \<^verbatim>\<open>fetchUserProfile\<close> (the console output is not an effect
  the model records), followed by its \<^verbatim>\<open>finally\<close>.\<close>

definition fetchUserProfile_catch :: "profile_run \<Rightarrow> profile_run" where
  "fetchUserProfile_catch r =
     setLoadingP False (setError (Some ''Failed to load profile. Please try again.'') r)"

text \<open>
  What the hook's \<^verbatim>\<open>fetchUserProfile\<close> does with a response body (lines 49 to 58).  The
  reads \<^verbatim>\<open>response.data.success\<close>, \<^verbatim>\<open>response.data.data.user\<close> and
  \<^verbatim>\<open>response.data.data.user.motherLanguage\<close> throw on \<^verbatim>\<open>undefined\<close> and \<^verbatim>\<open>null\<close>; the
  update \<^verbatim>\<open>setProfile\<close> made before such a throw stays.
\<close>

definition fetchUserProfile_response :: "json \<Rightarrow> profile_run \<Rightarrow> profile_run" where
  "fetchUserProfile_response body r =
     (if nullish body then fetchUserProfile_catch r
      else if truthy (js_get body ''success'') then
        let d = js_get body ''data'';
            r1 = setProfile d r
        in if nullish d then fetchUserProfile_catch r1
           else if nullish (js_get d ''user'') then fetchUserProfile_catch r1
           else if truthy (js_get (js_get d ''user'') ''motherLanguage'')
             then setLoadingP False
                    (setSelectedLanguage (js_get (js_get d ''user'') ''motherLanguage'') r1)
           else setLoadingP False r1
      else setLoadingP False (setError (Some ''Failed to load profile'') r))"

text \<open>One call of the hook's \<^verbatim>\<open>fetchUserProfile\<close> (useProfile, lines 37 to 65).\<close>

definition fetchUserProfile :: "env \<Rightarrow> profile_state \<Rightarrow> profile_run" where
  "fetchUserProfile e snap =
     (let r1 = pemit (StorageGetItem AUTH_TOKEN)
                 (setError None (setLoadingP True \<lparr>pst = snap, ptrace = []\<rparr>))
      in case token_read e of
           Inl err \<Rightarrow> fetchUserProfile_catch r1
         | Inr token \<Rightarrow>
             (let r2 = pemit (HttpGet (API_URL e @ ''/api/user/profile'') (bearer token)) r1
              in case reply e of
                   Inl err \<Rightarrow> fetchUserProfile_catch r2
                 | Inr body \<Rightarrow> fetchUserProfile_response body r2))"

text \<open>
  One call of \<^verbatim>\<open>fetchUserProfile\<close> of the profile screen (the unnamed source file with
  \<^verbatim>\<open>ProfileScreen\<close>, lines 50 to 71).  Here \<open>token_read\<close> is the outcome of the awaited
  \<^verbatim>\<open>SecureStore.getItemAsync\<close>.  The screen has no selected language; the field is left
  as it is.
\<close>

definition ProfileScreen_fetchUserProfile :: "env \<Rightarrow> profile_state \<Rightarrow> profile_run" where
  "ProfileScreen_fetchUserProfile e snap =
     (let r1 = pemit (SecureStoreGetItemAsync AUTH_TOKEN)
                 (setLoadingP True \<lparr>pst = snap, ptrace = []\<rparr>)
      in case token_read e of
           Inl err \<Rightarrow> fetchUserProfile_catch r1
         | Inr token \<Rightarrow>
             (let r2 = pemit (HttpGet (API_URL e @ ''/api/user/profile'') (bearer token)) r1
              in case reply e of
                   Inl err \<Rightarrow> fetchUserProfile_catch r2
                 | Inr body \<Rightarrow>
                     if nullish body then fetchUserProfile_catch r2
                     else if truthy (js_get body ''success'')
                       then setLoadingP False (setProfile (js_get body ''data'') r2)
                     else setLoadingP False (setError (Some ''Failed to load profile'') r2)))"

section \<open>Concrete inputs\<close>

text \<open>The initial values of the \<^verbatim>\<open>useState\<close> and \<^verbatim>\<open>useRef\<close> calls of \<^verbatim>\<open>usePractice\<close>.\<close>

definition initial_state :: practice_state where
  "initial_state =
     \<lparr>loading = False, generatingBatch = False, currentPractice = JNull, userAnswer = '''',
      feedback = None, errorMessage = None, questionQueue = [], adjusting = False,
      difficultyTrend = stable, previousDifficultyRef = JNull, difficultyChange = None,
      feedbackQuestion = '''', feedbackAnswer = JNull, askingQuestion = False\<rparr>"

text \<open>The initial values of the \<^verbatim>\<open>useState\<close> calls of \<^verbatim>\<open>useProfile\<close>.\<close>

definition initial_profile_state :: profile_state where
  "initial_profile_state =
     \<lparr>loadingP = True, profile = JNull, errorP = None, selectedLanguage = JStr ''English''\<rparr>"

text \<open>A logged-in user, a stored token, and a backend that answers with \<open>body\<close>.\<close>

definition env_with :: "json \<Rightarrow> env" where
  "env_with body =
     \<lparr>user = JObj [(''_id'', JStr ''u1'')], API_URL = ''http://localhost:3000'',
      token_read = Inr (Some ''tok''), reply = Inr body\<rparr>"


text \<open>A practice item with an identifier and a difficulty.\<close>

definition item :: "string \<Rightarrow> rat \<Rightarrow> json" where
  "item i d = JObj [(''_id'', JStr i), (''difficulty'', JNum d)]"

text \<open>No user is logged in.\<close>

definition logged_out :: env where
  "logged_out = (env_with JNull)\<lparr>user := JNull\<rparr>"

text \<open>The request fails.\<close>

definition offline :: env where
  "offline = (env_with JNull)\<lparr>reply := Inl (ErrorObj ''Network Error'')\<rparr>"

text \<open>A state with queued questions.\<close>

definition queued :: "json list \<Rightarrow> practice_state" where
  "queued q = initial_state\<lparr>questionQueue := q\<rparr>"

text \<open>A state in which the user has typed an answer to the current item.\<close>

definition answering :: "json list \<Rightarrow> practice_state" where
  "answering q = initial_state\<lparr>currentPractice := item ''q0'' 1, userAnswer := ''hallo'',
                                questionQueue := q\<rparr>"

text \<open>A state in which an item of difficulty \<open>d\<close> is shown after one of difficulty \<open>p\<close>.\<close>

definition showing :: "rat \<Rightarrow> rat \<Rightarrow> practice_state" where
  "showing d p = initial_state\<lparr>currentPractice := item ''q1'' d,
                                previousDifficultyRef := JNum p\<rparr>"

text \<open>A response to a submitted answer, with an evaluation and a next item.\<close>

definition submit_reply :: "bool \<Rightarrow> bool \<Rightarrow> json" where
  "submit_reply ok verdict =
     JObj [(''success'', JBool ok),
           (''data'', JObj [(''evaluation'', JObj [(''isCorrect'', JBool verdict),
                                                   (''feedback'', JStr ''Goed'')]),
                            (''nextPractice'', item ''q9'' 2)])]"

text \<open>A response to a generate request that lacks most members of an item.\<close>

definition sparse_reply :: json where
  "sparse_reply =
     JObj [(''success'', JBool True),
           (''data'', JObj [(''_id'', JStr ''p7''), (''content'', JStr ''fiets''),
                            (''difficulty'', JNum 0), (''categories'', JStr ''transport'')])]"

text \<open>A response to a profile request.\<close>

definition profile_reply :: "bool \<Rightarrow> json" where
  "profile_reply ok =
     JObj [(''success'', JBool ok),
           (''data'', JObj [(''user'', JObj [(''_id'', JStr ''u1''), (''name'', JStr ''Anna''),
                                           (''motherLanguage'', JStr ''German'')])])]"




section \<open>Properties\<close>

lemmas setter_defs =
  start_def emit_def setLoading_def setGeneratingBatch_def setCurrentPractice_def
  setUserAnswer_def setFeedback_def setErrorMessage_def setQuestionQueue_def
  setAdjusting_def setDifficultyTrend_def setDifficultyChange_def
  setFeedbackQuestion_def setFeedbackAnswer_def setAskingQuestion_def

lemmas psetter_defs =
  pemit_def setLoadingP_def setProfile_def setError_def setSelectedLanguage_def

lemmas generatePractice_defs =
  generatePractice_def generatePractice_begin_def generatePractice_resume_def
  generatePractice_catch_def generatePracticeBatch_begin_def clear_feedback_def

lemmas submitAnswer_defs =
  submitAnswer_def submitAnswer_response_def submitAnswer_catch_def

lemmas fetchUserProfile_defs =
  fetchUserProfile_def fetchUserProfile_response_def fetchUserProfile_catch_def

lemma js_get_falsy: "\<not> truthy v \<Longrightarrow> js_get v k = JUndefined"
  by (cases v) (auto simp: js_get_def)

lemma js_or_defined: "b \<noteq> JUndefined \<Longrightarrow> js_or a b \<noteq> JUndefined"
  by (cases a) (auto simp: js_or_def)

lemma is_array_array_or_empty: "is_array (array_or_empty v)"
  by (cases v) (auto simp: array_or_empty_def)

lemma array_or_empty_defined: "array_or_empty v \<noteq> JUndefined"
  by (cases v) (auto simp: array_or_empty_def)

lemma trim_hallo: "trim ''hallo'' = ''hallo''"
  by (simp add: trim_def js_whitespace_def)

subsection \<open>generatePracticeBatch leaves the state as it found it\<close>

lemma generatePracticeBatch_st:
  "st (generatePracticeBatch e snap) =
     (if \<not> truthy (user e) \<or> generatingBatch snap then snap
      else snap\<lparr>generatingBatch := False\<rparr>)"
  by (auto simp: generatePracticeBatch_def generatePracticeBatch_begin_def
      generatePracticeBatch_resume_def setter_defs Let_def split: sum.splits)

lemma generatePractice_calls_batch:
  "Background GeneratePracticeBatch \<in> set (trace (generatePractice e forceNew snap))
   \<Longrightarrow> truthy (user e) \<and> \<not> generatingBatch snap"
  by (auto simp: generatePractice_defs setter_defs Let_def split: if_splits sum.splits)

text \<open>
  Claim C9: \<^verbatim>\<open>generatePracticeBatch\<close> changes no practice state other than the
  \<open>generatingBatch\<close> flag: \<open>questionQueue\<close>, \<open>currentPractice\<close>, \<open>feedback\<close>,
  \<open>userAnswer\<close> and \<open>errorMessage\<close> are the same before and after every call,
  whether it returns early, succeeds or fails, and \<open>generatingBatch\<close> is false when
  the call completes.  The function is no member of what the hook returns; its one
  call is the one \<^verbatim>\<open>generatePractice\<close> makes on line 53, with the bindings of the
  same render, and that call is made only with a user and while \<open>generatingBatch\<close>
  is false.  The theorem shows the frame for any call, the flag for every call made
  while the flag is false, whatever the token read and the request do, and that the
  call on line 53 is such a call.
\<close>

theorem generatePracticeBatch_frame:
  "questionQueue (st (generatePracticeBatch e snap)) = questionQueue snap
   \<and> currentPractice (st (generatePracticeBatch e snap)) = currentPractice snap
   \<and> feedback (st (generatePracticeBatch e snap)) = feedback snap
   \<and> userAnswer (st (generatePracticeBatch e snap)) = userAnswer snap
   \<and> errorMessage (st (generatePracticeBatch e snap)) = errorMessage snap
   \<and> st (generatePracticeBatch e snap)
       = snap\<lparr>generatingBatch := generatingBatch (st (generatePracticeBatch e snap))\<rparr>
   \<and> (\<not> generatingBatch snap \<longrightarrow> \<not> generatingBatch (st (generatePracticeBatch e snap)))
   \<and> (Background GeneratePracticeBatch \<in> set (trace (generatePractice e' forceNew snap))
        \<longrightarrow> truthy (user e') \<and> \<not> generatingBatch snap
            \<and> \<not> generatingBatch (st (generatePracticeBatch e snap)))"
  using generatePractice_calls_batch [of e' forceNew snap]
  by (auto simp: generatePracticeBatch_st)

theorem generatePracticeBatch_frame_witness:
  "Background GeneratePracticeBatch
     \<in> set (trace (generatePractice (env_with JNull) False (queued [item ''q1'' 1])))
   \<and> \<not> generatingBatch (queued [item ''q1'' 1])
   \<and> fst (generatePracticeBatch_begin (env_with JNull) (queued [item ''q1'' 1])
            (start (queued [item ''q1'' 1])))
       = \<lparr>st = (queued [item ''q1'' 1])\<lparr>generatingBatch := True\<rparr>,
          trace = [StorageGetItem AUTH_TOKEN]\<rparr>
   \<and> questionQueue (st (generatePracticeBatch (env_with JNull) (queued [item ''q1'' 1])))
       = [item ''q1'' 1]
   \<and> \<not> generatingBatch (st (generatePracticeBatch (env_with JNull) (queued [item ''q1'' 1])))
   \<and> \<not> generatingBatch (st (generatePracticeBatch offline (queued [item ''q1'' 1])))
   \<and> \<not> generatingBatch (st (generatePracticeBatch logged_out (queued [item ''q1'' 1])))"
  using generatePracticeBatch_frame
          [of "env_with JNull" "queued [item ''q1'' 1]" "env_with JNull" False]
    generatePracticeBatch_frame [of offline "queued [item ''q1'' 1]" "env_with JNull" False]
    generatePracticeBatch_frame [of logged_out "queued [item ''q1'' 1]" "env_with JNull" False]
  by (simp add: env_with_def queued_def initial_state_def generatePracticeBatch_begin_def
      generatePractice_defs setter_defs Let_def)

subsection \<open>generatePractice serves the queue\<close>

lemma generatePractice_queue_path:
  assumes "truthy (user e)" and "questionQueue snap = q # qs"
  shows "generatePractice e False snap =
     \<lparr>st = snap\<lparr>errorMessage := None, feedback := None, userAnswer := '''',
                  feedbackQuestion := '''', feedbackAnswer := JNull, askingQuestion := False,
                  currentPractice := q, questionQueue := qs,
                  generatingBatch := (length qs < 2 \<and> \<not> generatingBatch snap) \<or> generatingBatch snap,
                  loading := False\<rparr>,
      trace = (if length qs < 2 \<and> \<not> generatingBatch snap
               then [Background GeneratePracticeBatch, StorageGetItem AUTH_TOKEN] else [])\<rparr>"
  using assms by (auto simp: generatePractice_defs setter_defs Let_def)

text \<open>
  Claim C1, as stated: every call of \<^verbatim>\<open>generatePractice\<close> with \<open>forceNew = false\<close> and
  a non-empty queue sets \<open>currentPractice\<close> to the head of the queue.  It fails when
  no user is logged in: the guard on line 31 alerts and returns before the queue is
  looked at.
\<close>

theorem generatePractice_logged_out_counterexample:
  "\<not> (currentPractice (st (generatePractice logged_out False (queued [item ''q1'' 1])))
        = hd (questionQueue (queued [item ''q1'' 1])))"
  by (simp add: generatePractice_defs setter_defs Let_def logged_out_def queued_def
      initial_state_def env_with_def item_def)

text \<open>
  Claim C1, amended: for every call of \<^verbatim>\<open>generatePractice\<close> with \<open>forceNew = false\<close>
  made with a logged-in user while the question queue is non-empty, the hook sets
  \<open>currentPractice\<close> to the head of the queue, replaces the queue with its tail,
  issues no HTTP request, and triggers a background batch generation if and only if
  the tail has fewer than 2 items and no batch generation is already in progress.
  (The request of a triggered batch generation is made by
  \<open>generatePracticeBatch_resume\<close>, after this call has returned.)
\<close>

theorem generatePractice_takes_queue_head:
  assumes "truthy (user e)" and "questionQueue snap \<noteq> []"
  shows "currentPractice (st (generatePractice e False snap)) = hd (questionQueue snap)
       \<and> questionQueue (st (generatePractice e False snap)) = tl (questionQueue snap)
       \<and> filter is_http (trace (generatePractice e False snap)) = []
       \<and> (Background GeneratePracticeBatch \<in> set (trace (generatePractice e False snap))
            \<longleftrightarrow> length (tl (questionQueue snap)) < 2 \<and> \<not> generatingBatch snap)"
proof -
  from assms(2) obtain q qs where q: "questionQueue snap = q # qs"
    by (cases "questionQueue snap") auto
  show ?thesis
    by (simp add: generatePractice_queue_path [OF assms(1) q] q)
qed

theorem generatePractice_takes_queue_head_witness:
  "truthy (user (env_with JNull))
   \<and> questionQueue (queued [item ''q1'' 1, item ''q2'' 2, item ''q3'' 3]) \<noteq> []
   \<and> currentPractice (st (generatePractice (env_with JNull) False
         (queued [item ''q1'' 1, item ''q2'' 2, item ''q3'' 3]))) = item ''q1'' 1
   \<and> questionQueue (st (generatePractice (env_with JNull) False
         (queued [item ''q1'' 1, item ''q2'' 2, item ''q3'' 3]))) = [item ''q2'' 2, item ''q3'' 3]
   \<and> Background GeneratePracticeBatch \<notin> set (trace (generatePractice (env_with JNull) False
         (queued [item ''q1'' 1, item ''q2'' 2, item ''q3'' 3])))
   \<and> Background GeneratePracticeBatch \<in> set (trace (generatePractice (env_with JNull) False
         (queued [item ''q1'' 1, item ''q2'' 2])))"
  using generatePractice_takes_queue_head
          [of "env_with JNull" "queued [item ''q1'' 1, item ''q2'' 2, item ''q3'' 3]"]
        generatePractice_takes_queue_head
          [of "env_with JNull" "queued [item ''q1'' 1, item ''q2'' 2]"]
  by (simp add: env_with_def queued_def initial_state_def)

subsection \<open>The queue is first in, first out\<close>

lemma submitAnswer_response_appends:
  "questionQueue (st (submitAnswer_response body r)) = questionQueue (st r)
   \<or> questionQueue (st (submitAnswer_response body r))
       = questionQueue (st r) @ [js_get (js_get body ''data'') ''nextPractice'']"
  by (simp add: submitAnswer_response_def setter_defs Let_def)

lemma submitAnswer_queue_cases:
  "questionQueue (st (submitAnswer e snap)) = questionQueue snap
   \<or> (\<exists>t body.
         truthy (currentPractice snap) \<and> trim (userAnswer snap) \<noteq> []
         \<and> token_read e = Inr t \<and> reply e = Inr body
         \<and> truthy (js_get_opt body ''success'') \<and> truthy (js_get_opt body ''data'')
         \<and> truthy (js_get (js_get body ''data'') ''nextPractice'')
         \<and> questionQueue (st (submitAnswer e snap))
             = questionQueue snap @ [js_get (js_get body ''data'') ''nextPractice''])"
  by (auto simp: submitAnswer_defs setter_defs Let_def split: sum.splits)

lemma submitAnswer_enqueues:
  assumes "truthy (currentPractice snap)" and "trim (userAnswer snap) \<noteq> []"
    and "token_read e = Inr t" and "reply e = Inr body"
    and "truthy (js_get_opt body ''success'')" and "truthy (js_get_opt body ''data'')"
    and "truthy (js_get (js_get body ''data'') ''nextPractice'')"
  shows "questionQueue (st (submitAnswer e snap))
           = questionQueue snap @ [js_get (js_get body ''data'') ''nextPractice'']"
proof -
  have "userAnswer snap \<noteq> []" using assms(2) by (auto simp: trim_def)
  then show ?thesis using assms
    by (simp add: submitAnswer_defs setter_defs Let_def)
qed

lemma generatePractice_queue_cases:
  "questionQueue (st (generatePractice e forceNew snap)) = questionQueue snap
   \<or> (questionQueue snap \<noteq> []
       \<and> currentPractice (st (generatePractice e forceNew snap)) = hd (questionQueue snap)
       \<and> questionQueue (st (generatePractice e forceNew snap)) = tl (questionQueue snap))"
  by (cases "questionQueue snap")
     (auto simp: generatePractice_defs setter_defs Let_def split: sum.splits)

lemma presented_take:
  "truthy (user e) \<Longrightarrow> n \<le> length (questionQueue s) \<Longrightarrow>
   presented e n s = take n (questionQueue s)"
proof (induction n arbitrary: s)
  case 0
  then show ?case by simp
next
  case (Suc n)
  then obtain q qs where q: "questionQueue s = q # qs"
    by (cases "questionQueue s") auto
  have step: "currentPractice (st (generatePractice e False s)) = q"
    "questionQueue (st (generatePractice e False s)) = qs"
    by (simp_all add: generatePractice_queue_path [OF Suc.prems(1) q])
  have "presented e n (st (generatePractice e False s)) = take n qs"
    using Suc.IH [of "st (generatePractice e False s)"] Suc.prems q step by simp
  then show ?case by (simp add: Let_def step q)
qed

text \<open>
  Claim C6, as stated: \<^verbatim>\<open>submitAnswer\<close> appends the \<^verbatim>\<open>nextPractice\<close> of the server to
  the back of the queue when it is present in the response.  It fails for a response
  that carries a \<^verbatim>\<open>nextPractice\<close> and is not marked successful: the guard on line 164
  skips the append and the queue stays as it is.
\<close>

theorem submitAnswer_unsuccessful_not_enqueued_counterexample:
  "truthy (js_get (js_get (submit_reply False True) ''data'') ''nextPractice'')
   \<and> questionQueue (st (submitAnswer (env_with (submit_reply False True))
                         (answering [item ''q1'' 1])))
       \<noteq> [item ''q1'' 1] @ [js_get (js_get (submit_reply False True) ''data'') ''nextPractice'']
   \<and> questionQueue (st (submitAnswer (env_with (submit_reply False True))
                         (answering [item ''q1'' 1])))
       = [item ''q1'' 1]"
  by (simp add: submitAnswer_defs setter_defs Let_def env_with_def answering_def
      initial_state_def submit_reply_def item_def js_get_def js_get_opt_def nullish_def
      trim_hallo)

text \<open>
  Claim C6, amended: the question queue is first in, first out.  \<^verbatim>\<open>submitAnswer\<close>
  appends the \<^verbatim>\<open>nextPractice\<close> of the server to the back of the queue, leaving every
  item queued before in place and in order, when it is called with a current practice
  item and a non-blank answer, the token read and the request succeed, and the
  response is marked successful and carries data with a truthy \<^verbatim>\<open>nextPractice\<close>; in
  every other case it leaves the queue as it is.  \<^verbatim>\<open>generatePractice\<close> leaves the
  queue as it is or removes its front element only, which becomes the current item.
  So, with a logged-in user and \<open>n\<close> at most the length of the queue, \<open>n\<close> calls of
  \<^verbatim>\<open>generatePractice()\<close> in a row present the first \<open>n\<close> queued items in the order
  of the queue.
\<close>

theorem question_queue_fifo:
  "(questionQueue (st (submitAnswer e snap)) = questionQueue snap
      \<or> (\<exists>t body.
            truthy (currentPractice snap) \<and> trim (userAnswer snap) \<noteq> []
            \<and> token_read e = Inr t \<and> reply e = Inr body
            \<and> truthy (js_get_opt body ''success'') \<and> truthy (js_get_opt body ''data'')
            \<and> truthy (js_get (js_get body ''data'') ''nextPractice'')
            \<and> questionQueue (st (submitAnswer e snap))
                = questionQueue snap @ [js_get (js_get body ''data'') ''nextPractice'']))
   \<and> (truthy (currentPractice snap) \<and> trim (userAnswer snap) \<noteq> []
        \<and> token_read e = Inr t \<and> reply e = Inr body
        \<and> truthy (js_get_opt body ''success'') \<and> truthy (js_get_opt body ''data'')
        \<and> truthy (js_get (js_get body ''data'') ''nextPractice'')
      \<longrightarrow> questionQueue (st (submitAnswer e snap))
            = questionQueue snap @ [js_get (js_get body ''data'') ''nextPractice''])
   \<and> (questionQueue (st (generatePractice e forceNew snap)) = questionQueue snap
      \<or> (questionQueue snap \<noteq> []
          \<and> currentPractice (st (generatePractice e forceNew snap)) = hd (questionQueue snap)
          \<and> questionQueue (st (generatePractice e forceNew snap)) = tl (questionQueue snap)))
   \<and> (truthy (user e) \<and> n \<le> length (questionQueue snap)
      \<longrightarrow> presented e n snap = take n (questionQueue snap))"
  using submitAnswer_queue_cases [of e snap] submitAnswer_enqueues [of snap e t body]
    generatePractice_queue_cases [of e forceNew snap] presented_take [of e n snap]
  by blast

theorem question_queue_fifo_witness:
  "truthy (currentPractice (answering [item ''q1'' 1, item ''q2'' 2]))
   \<and> trim (userAnswer (answering [item ''q1'' 1, item ''q2'' 2])) \<noteq> []
   \<and> questionQueue (st (submitAnswer (env_with (submit_reply True True))
                         (answering [item ''q1'' 1, item ''q2'' 2])))
       = [item ''q1'' 1, item ''q2'' 2, item ''q9'' 2]
   \<and> truthy (user (env_with JNull))
   \<and> presented (env_with JNull) 2 (answering [item ''q1'' 1, item ''q2'' 2, item ''q9'' 2])
       = [item ''q1'' 1, item ''q2'' 2]"
  using question_queue_fifo [of "env_with (submit_reply True True)"
          "answering [item ''q1'' 1, item ''q2'' 2]" "Some ''tok''" "submit_reply True True" False 0]
    question_queue_fifo [of "env_with JNull"
          "answering [item ''q1'' 1, item ''q2'' 2, item ''q9'' 2]" "Some ''tok''" JNull False 2]
  by (simp add: env_with_def answering_def initial_state_def submit_reply_def item_def
      js_get_def js_get_opt_def nullish_def trim_hallo)

subsection \<open>The item installed from a response has every member\<close>

lemma generatePractice_fetch_success:
  assumes "truthy (user e)" and "forceNew \<or> questionQueue snap = []"
    and "token_read e = Inr t" and "reply e = Inr body"
    and "truthy (js_get_opt body ''success'')" and "truthy (js_get_opt body ''data'')"
  shows "currentPractice (st (generatePractice e forceNew snap))
           = practice_of (js_get body ''data'')"
  using assms by (auto simp: generatePractice_defs setter_defs Let_def)

lemma js_get_practice_of:
  "js_get (practice_of d) ''_id'' = js_or (js_get d ''_id'') (JStr '''')"
  "js_get (practice_of d) ''content'' = js_or (js_get d ''content'') (JStr '''')"
  "js_get (practice_of d) ''translation'' = js_or (js_get d ''translation'') (JStr '''')"
  "js_get (practice_of d) ''type'' = js_or (js_get d ''type'') (JStr ''vocabulary'')"
  "js_get (practice_of d) ''difficulty'' = js_or (js_get d ''difficulty'') (JNum 1)"
  "js_get (practice_of d) ''complexity'' = js_or (js_get d ''complexity'') (JNum 1)"
  "js_get (practice_of d) ''categories'' = array_or_empty (js_get d ''categories'')"
  "js_get (practice_of d) ''questionType'' = js_or (js_get d ''questionType'') (JStr '''')"
  "js_get (practice_of d) ''options'' = array_or_empty (js_get d ''options'')"
  by (simp_all add: practice_of_def js_get_def)

lemma practice_of_members: "members (practice_of d) = practice_keys"
  by (simp add: practice_of_def members_def practice_keys_def)

lemma practice_of_defined: "list_all (\<lambda>k. js_get (practice_of d) k \<noteq> JUndefined) practice_keys"
  by (simp add: practice_keys_def js_get_practice_of js_or_defined array_or_empty_defined)

text \<open>
  Claim C10: when \<^verbatim>\<open>generatePractice\<close> fetches from the server (a user is logged in,
  and the call forces a new item or the queue is empty) and the response is marked
  successful with data, the item \<open>p\<close> it installs as \<open>currentPractice\<close> has the nine
  members of a practice item and none of them is \<^verbatim>\<open>undefined\<close>: \<open>categories\<close> and
  \<open>options\<close> are arrays, empty when the fields of the response are not arrays;
  \<open>difficulty\<close> and \<open>complexity\<close> default to 1, \<open>type\<close> to \<^verbatim>\<open>'vocabulary'\<close>, and the
  other members to the empty string.
\<close>

theorem generatePractice_installs_defaulted_item:
  assumes "truthy (user e)" and "forceNew \<or> questionQueue snap = []"
    and "token_read e = Inr t" and "reply e = Inr body"
    and "truthy (js_get_opt body ''success'')" and "truthy (js_get_opt body ''data'')"
    and "p = currentPractice (st (generatePractice e forceNew snap))"
    and "d = js_get body ''data''"
  shows "members p = practice_keys
       \<and> list_all (\<lambda>k. js_get p k \<noteq> JUndefined) practice_keys
       \<and> is_array (js_get p ''categories'') \<and> is_array (js_get p ''options'')
       \<and> js_get p ''categories''
           = (if is_array (js_get d ''categories'') then js_get d ''categories'' else JArr [])
       \<and> js_get p ''options''
           = (if is_array (js_get d ''options'') then js_get d ''options'' else JArr [])
       \<and> js_get p ''difficulty''
           = (if truthy (js_get d ''difficulty'') then js_get d ''difficulty'' else JNum 1)
       \<and> js_get p ''complexity''
           = (if truthy (js_get d ''complexity'') then js_get d ''complexity'' else JNum 1)
       \<and> js_get p ''type''
           = (if truthy (js_get d ''type'') then js_get d ''type'' else JStr ''vocabulary'')
       \<and> js_get p ''_id''
           = (if truthy (js_get d ''_id'') then js_get d ''_id'' else JStr '''')
       \<and> js_get p ''content''
           = (if truthy (js_get d ''content'') then js_get d ''content'' else JStr '''')
       \<and> js_get p ''translation''
           = (if truthy (js_get d ''translation'') then js_get d ''translation'' else JStr '''')
       \<and> js_get p ''questionType''
           = (if truthy (js_get d ''questionType'') then js_get d ''questionType'' else JStr '''')"
proof -
  have p: "p = practice_of d"
    using generatePractice_fetch_success [OF assms(1-6)] assms(7,8) by simp
  have arr: "array_or_empty v = (if is_array v then v else JArr [])" for v
    by (cases v) (simp_all add: array_or_empty_def)
  show ?thesis
    unfolding p
    by (simp add: practice_of_members practice_of_defined js_get_practice_of
        is_array_array_or_empty js_or_def arr)
qed

theorem generatePractice_installs_defaulted_item_witness:
  "truthy (user (env_with sparse_reply))
   \<and> token_read (env_with sparse_reply) = Inr (Some ''tok'')
   \<and> reply (env_with sparse_reply) = Inr sparse_reply
   \<and> truthy (js_get_opt sparse_reply ''success'')
   \<and> truthy (js_get_opt sparse_reply ''data'')
   \<and> currentPractice (st (generatePractice (env_with sparse_reply) True initial_state))
       = JObj [(''_id'', JStr ''p7''), (''content'', JStr ''fiets''), (''translation'', JStr ''''),
               (''type'', JStr ''vocabulary''), (''difficulty'', JNum 1), (''complexity'', JNum 1),
               (''categories'', JArr []), (''questionType'', JStr ''''), (''options'', JArr [])]
   \<and> list_all (\<lambda>k. js_get (currentPractice
          (st (generatePractice (env_with sparse_reply) True initial_state))) k \<noteq> JUndefined)
        practice_keys"
proof -
  have e: "truthy (user (env_with sparse_reply))"
    "token_read (env_with sparse_reply) = Inr (Some ''tok'')"
    "reply (env_with sparse_reply) = Inr sparse_reply"
    by (simp_all add: env_with_def)
  have b: "truthy (js_get_opt sparse_reply ''success'')"
    "truthy (js_get_opt sparse_reply ''data'')"
    by (simp_all add: sparse_reply_def js_get_opt_def js_get_def nullish_def)
  have v: "currentPractice (st (generatePractice (env_with sparse_reply) True initial_state))
       = JObj [(''_id'', JStr ''p7''), (''content'', JStr ''fiets''), (''translation'', JStr ''''),
               (''type'', JStr ''vocabulary''), (''difficulty'', JNum 1), (''complexity'', JNum 1),
               (''categories'', JArr []), (''questionType'', JStr ''''), (''options'', JArr [])]"
  proof -
    have "currentPractice (st (generatePractice (env_with sparse_reply) True initial_state))
            = practice_of (js_get sparse_reply ''data'')"
      by (rule generatePractice_fetch_success [OF e(1) _ e(2,3) b]) simp
    then show ?thesis
      by (simp add: practice_of_def sparse_reply_def js_get_def js_or_def array_or_empty_def)
  qed
  from generatePractice_installs_defaulted_item [OF e(1) _ e(2,3) b refl refl, of True initial_state]
  have "list_all (\<lambda>k. js_get (currentPractice
          (st (generatePractice (env_with sparse_reply) True initial_state))) k \<noteq> JUndefined)
        practice_keys"
    by simp
  with e b v show ?thesis by simp
qed

subsection \<open>The verdict shown is the verdict of the backend\<close>

lemma submitAnswer_feedback:
  assumes "truthy (currentPractice snap)" and "trim (userAnswer snap) \<noteq> []"
    and "token_read e = Inr t" and "reply e = Inr body"
  shows "feedback (st (submitAnswer e snap)) = feedback (st (submitAnswer_response body r))"
proof -
  have "userAnswer snap \<noteq> []" using assms(2) by (auto simp: trim_def)
  then show ?thesis using assms
    by (simp add: submitAnswer_defs setter_defs Let_def)
qed

lemma submitAnswer_response_verdict:
  "map_option isCorrect (feedback (st (submitAnswer_response body r)))
     = Some (truthy (js_get_opt body ''success'')
             \<and> truthy (js_get (js_get (js_get_opt body ''data'') ''evaluation'') ''isCorrect''))"
proof -
  have d: "js_get_opt body ''data'' = js_get body ''data''"
    by (auto simp: js_get_opt_def nullish_def js_get_def)
  show ?thesis
    by (auto simp: submitAnswer_response_def setter_defs Let_def d js_get_falsy)
qed

text \<open>
  Claim C4, as stated: for every call of \<^verbatim>\<open>submitAnswer\<close> with a current practice item
  and a non-blank answer, \<open>feedback.isCorrect\<close> equals the boolean coercion of the
  \<open>evaluation.isCorrect\<close> field of the backend response.  It fails for a response
  that is not marked successful and carries an evaluation marked correct: the guard
  on line 164 skips the evaluation and the verdict shown is false.
\<close>

theorem submitAnswer_unsuccessful_verdict_counterexample:
  "\<not> (map_option isCorrect
         (feedback (st (submitAnswer (env_with (submit_reply False True)) (answering []))))
       = Some (truthy (js_get (js_get (js_get (submit_reply False True) ''data'')
                                 ''evaluation'') ''isCorrect'')))"
  by (simp add: submitAnswer_defs setter_defs Let_def env_with_def answering_def
      initial_state_def submit_reply_def item_def js_get_def js_get_opt_def nullish_def
      trim_hallo)

text \<open>
  Claim C4, amended: answer grading is performed server-side.  For every call of
  \<^verbatim>\<open>submitAnswer\<close> with a current practice item and a non-blank answer that the backend
  answers, \<open>feedback.isCorrect\<close> equals the boolean coercion of the
  \<open>evaluation.isCorrect\<close> field of the response when the response is marked
  successful, and is false when the response is not marked successful or carries no
  evaluation.  The feedback does not depend on the answer or on the practice item:
  any other call with a current item and a non-blank answer that meets the same
  response shows the same feedback.
\<close>

theorem submitAnswer_verdict:
  assumes "truthy (currentPractice snap)" and "trim (userAnswer snap) \<noteq> []"
    and "token_read e = Inr t" and "reply e = Inr body"
  shows "map_option isCorrect (feedback (st (submitAnswer e snap)))
           = Some (truthy (js_get_opt body ''success'')
                   \<and> truthy (js_get (js_get (js_get_opt body ''data'') ''evaluation'')
                               ''isCorrect''))
       \<and> (\<not> truthy (js_get (js_get_opt body ''data'') ''evaluation'')
          \<longrightarrow> map_option isCorrect (feedback (st (submitAnswer e snap))) = Some False)
       \<and> (truthy (currentPractice snap') \<and> trim (userAnswer snap') \<noteq> []
          \<longrightarrow> feedback (st (submitAnswer e snap')) = feedback (st (submitAnswer e snap)))"
  using submitAnswer_feedback [OF assms, of "start snap"]
    submitAnswer_feedback [of snap' e t body "start snap", OF _ _ assms(3,4)]
    submitAnswer_response_verdict [of body "start snap"]
  by (auto simp: js_get_falsy)

theorem submitAnswer_verdict_witness:
  "truthy (currentPractice (answering [])) \<and> trim (userAnswer (answering [])) \<noteq> []
   \<and> token_read (env_with (submit_reply True True)) = Inr (Some ''tok'')
   \<and> reply (env_with (submit_reply True True)) = Inr (submit_reply True True)
   \<and> map_option isCorrect
       (feedback (st (submitAnswer (env_with (submit_reply True True)) (answering []))))
       = Some True
   \<and> map_option isCorrect
       (feedback (st (submitAnswer (env_with (submit_reply True False)) (answering []))))
       = Some False
   \<and> \<not> truthy (js_get (js_get_opt (JObj [(''success'', JBool True)]) ''data'') ''evaluation'')
   \<and> map_option isCorrect
       (feedback (st (submitAnswer (env_with (JObj [(''success'', JBool True)])) (answering []))))
       = Some False
   \<and> truthy (currentPractice ((answering [])\<lparr>userAnswer := ''fiets''\<rparr>))
   \<and> trim (userAnswer ((answering [])\<lparr>userAnswer := ''hallo''\<rparr>)) \<noteq> []
   \<and> feedback (st (submitAnswer (env_with (submit_reply True True))
                     ((answering [])\<lparr>userAnswer := ''hallo''\<rparr>)))
       = feedback (st (submitAnswer (env_with (submit_reply True True)) (answering [])))"
  using submitAnswer_verdict [of "answering []" "env_with (submit_reply True True)"
          "Some ''tok''" "submit_reply True True" "(answering [])\<lparr>userAnswer := ''hallo''\<rparr>"]
    submitAnswer_verdict [of "answering []" "env_with (submit_reply True False)"
          "Some ''tok''" "submit_reply True False" "answering []"]
    submitAnswer_verdict [of "answering []" "env_with (JObj [(''success'', JBool True)])"
          "Some ''tok''" "JObj [(''success'', JBool True)]" "answering []"]
  by (simp add: env_with_def answering_def initial_state_def submit_reply_def item_def
      js_get_def js_get_opt_def nullish_def trim_hallo)

subsection \<open>fetchUserProfile\<close>

lemma fetchUserProfile_loading: "\<not> loadingP (pst (fetchUserProfile e snap))"
  by (auto simp: fetchUserProfile_defs psetter_defs Let_def split: sum.splits)

lemma fetchUserProfile_success:
  assumes "token_read e = Inr t" and "reply e = Inr body"
    and "truthy (js_get_opt body ''success'')"
  shows "profile (pst (fetchUserProfile e snap)) = js_get body ''data''"
  using assms
  by (auto simp: fetchUserProfile_defs psetter_defs Let_def js_get_opt_def split: if_splits)

lemma fetchUserProfile_failure:
  assumes "token_read e = Inr t" and "reply e = Inr body"
    and "\<not> truthy (js_get_opt body ''success'')"
  shows "profile (pst (fetchUserProfile e snap)) = profile snap
       \<and> errorP (pst (fetchUserProfile e snap))
           = Some (if nullish body then ''Failed to load profile. Please try again.''
                   else ''Failed to load profile'')"
  using assms
  by (auto simp: fetchUserProfile_defs psetter_defs Let_def js_get_opt_def split: if_splits)

lemma fetchUserProfile_thrown:
  assumes "token_read e = Inl x \<or> (token_read e = Inr t \<and> reply e = Inl x)"
  shows "profile (pst (fetchUserProfile e snap)) = profile snap
       \<and> errorP (pst (fetchUserProfile e snap))
           = Some ''Failed to load profile. Please try again.''"
  using assms
  by (auto simp: fetchUserProfile_defs psetter_defs Let_def)

text \<open>
  Claim C7: \<^verbatim>\<open>fetchUserProfile\<close> of the profile hook stores the \<open>data\<close> field of the
  response in the profile state exactly when the response marks success; when it
  does not, the error state is set and the profile is left as it was; when the token
  read or the request throws, an error message is set (and the profile is left as it
  was); and in every case \<open>loading\<close> is false once the call completes.
\<close>

theorem fetchUserProfile_outcomes:
  "\<not> loadingP (pst (fetchUserProfile e snap))
   \<and> (token_read e = Inr t \<and> reply e = Inr body \<and> truthy (js_get_opt body ''success'')
      \<longrightarrow> profile (pst (fetchUserProfile e snap)) = js_get body ''data'')
   \<and> (token_read e = Inr t \<and> reply e = Inr body \<and> \<not> truthy (js_get_opt body ''success'')
      \<longrightarrow> profile (pst (fetchUserProfile e snap)) = profile snap
          \<and> errorP (pst (fetchUserProfile e snap))
              = Some (if nullish body then ''Failed to load profile. Please try again.''
                      else ''Failed to load profile''))
   \<and> (token_read e = Inl x \<or> (token_read e = Inr t \<and> reply e = Inl x)
      \<longrightarrow> profile (pst (fetchUserProfile e snap)) = profile snap
          \<and> errorP (pst (fetchUserProfile e snap))
              = Some ''Failed to load profile. Please try again.'')"
  using fetchUserProfile_loading [of e snap] fetchUserProfile_success [of e t body snap]
    fetchUserProfile_failure [of e t body snap] fetchUserProfile_thrown [of e x t snap]
  by blast

theorem fetchUserProfile_outcomes_witness:
  "token_read (env_with (profile_reply True)) = Inr (Some ''tok'')
   \<and> reply (env_with (profile_reply True)) = Inr (profile_reply True)
   \<and> truthy (js_get_opt (profile_reply True) ''success'')
   \<and> profile (pst (fetchUserProfile (env_with (profile_reply True)) initial_profile_state))
       = JObj [(''user'', JObj [(''_id'', JStr ''u1''), (''name'', JStr ''Anna''),
                               (''motherLanguage'', JStr ''German'')])]
   \<and> \<not> loadingP (pst (fetchUserProfile (env_with (profile_reply True)) initial_profile_state))
   \<and> \<not> truthy (js_get_opt (profile_reply False) ''success'')
   \<and> profile (pst (fetchUserProfile (env_with (profile_reply False)) initial_profile_state))
       = JNull
   \<and> errorP (pst (fetchUserProfile (env_with (profile_reply False)) initial_profile_state))
       = Some ''Failed to load profile''
   \<and> reply offline = Inl (ErrorObj ''Network Error'')
   \<and> profile (pst (fetchUserProfile offline initial_profile_state)) = JNull
   \<and> errorP (pst (fetchUserProfile offline initial_profile_state))
       = Some ''Failed to load profile. Please try again.''"
  using fetchUserProfile_outcomes [of "env_with (profile_reply True)" initial_profile_state
          "Some ''tok''" "profile_reply True" NonError]
    fetchUserProfile_outcomes [of "env_with (profile_reply False)" initial_profile_state
          "Some ''tok''" "profile_reply False" NonError]
    fetchUserProfile_outcomes [of offline initial_profile_state
          "Some ''tok''" JNull "ErrorObj ''Network Error''"]
  by (simp add: env_with_def offline_def profile_reply_def initial_profile_state_def
      js_get_opt_def js_get_def nullish_def)

subsection \<open>The difficulty trend\<close>

text \<open>
  Claim C2: when the effect runs for a current item whose difficulty is a truthy
  number \<open>d\<close> and a previous difficulty \<open>p\<close> has been recorded, \<open>difficultyTrend\<close>
  becomes \<open>increasing\<close> if \<open>d\<close> is strictly greater than \<open>p\<close>, \<open>decreasing\<close> if it is
  strictly smaller and \<open>stable\<close> if they are equal, and the recorded difficulty
  becomes \<open>d\<close>.
\<close>

theorem difficultyTrendEffect_trend:
  assumes "js_get (currentPractice s) ''difficulty'' = JNum d" and "d \<noteq> 0"
    and "previousDifficultyRef s = JNum p"
  shows "(p < d \<longrightarrow> difficultyTrend (difficultyTrendEffect lt_other s) = increasing)
       \<and> (d < p \<longrightarrow> difficultyTrend (difficultyTrendEffect lt_other s) = decreasing)
       \<and> (d = p \<longrightarrow> difficultyTrend (difficultyTrendEffect lt_other s) = stable)
       \<and> previousDifficultyRef (difficultyTrendEffect lt_other s) = JNum d"
proof -
  have "truthy (currentPractice s)"
    using assms(1) by (cases "currentPractice s") (auto simp: js_get_def)
  then show ?thesis using assms
    by (auto simp: difficultyTrendEffect_def js_gt_def js_lt_def Let_def)
qed

theorem difficultyTrendEffect_trend_witness:
  "js_get (currentPractice (showing 3 2)) ''difficulty'' = JNum 3
   \<and> previousDifficultyRef (showing 3 2) = JNum 2
   \<and> difficultyTrend (difficultyTrendEffect (\<lambda>a b. False) (showing 3 2)) = increasing
   \<and> previousDifficultyRef (difficultyTrendEffect (\<lambda>a b. False) (showing 3 2)) = JNum 3
   \<and> difficultyTrend (difficultyTrendEffect (\<lambda>a b. False) (showing (3 / 2) 2)) = decreasing
   \<and> difficultyTrend (difficultyTrendEffect (\<lambda>a b. False)
        ((showing 2 2)\<lparr>difficultyTrend := increasing\<rparr>)) = stable"
  using difficultyTrendEffect_trend [of "showing 3 2" 3 2 "\<lambda>a b. False"]
    difficultyTrendEffect_trend [of "showing (3 / 2) 2" "3 / 2" 2 "\<lambda>a b. False"]
    difficultyTrendEffect_trend [of "(showing 2 2)\<lparr>difficultyTrend := increasing\<rparr>" 2 2
      "\<lambda>a b. False"]
  by (simp add: showing_def initial_state_def item_def js_get_def)

subsection \<open>Where the token is read\<close>

text \<open>
  Claim C5 says that every read of the persisted token goes through
  \<^verbatim>\<open>storage.getItem\<close>.  The profile screen does not: its \<^verbatim>\<open>fetchUserProfile\<close> reads the
  token with \<^verbatim>\<open>SecureStore.getItemAsync\<close>, where the hook's function of the same name,
  for the same endpoint, reads it with \<^verbatim>\<open>storage.getItem\<close>.
\<close>

theorem ProfileScreen_reads_token_from_SecureStore:
  "ptrace (ProfileScreen_fetchUserProfile (env_with (profile_reply True)) initial_profile_state)
     = [SecureStoreGetItemAsync AUTH_TOKEN,
        HttpGet ''http://localhost:3000/api/user/profile'' ''Bearer tok'']
   \<and> StorageGetItem AUTH_TOKEN
       \<notin> set (ptrace (ProfileScreen_fetchUserProfile (env_with (profile_reply True))
                        initial_profile_state))
   \<and> ptrace (fetchUserProfile (env_with (profile_reply True)) initial_profile_state)
     = [StorageGetItem AUTH_TOKEN,
        HttpGet ''http://localhost:3000/api/user/profile'' ''Bearer tok'']"
  by (simp add: ProfileScreen_fetchUserProfile_def fetchUserProfile_defs psetter_defs Let_def
      env_with_def profile_reply_def initial_profile_state_def bearer_def
      js_get_def nullish_def)

subsection \<open>What the practice screen takes from the hook\<close>

text \<open>
  Claim C8 says that the record \<^verbatim>\<open>usePractice\<close> returns has every member the practice
  screen destructures from it.  It has not: \<^verbatim>\<open>askFollowUpQuestion\<close>,
  \<^verbatim>\<open>complexityChange\<close> and \<^verbatim>\<open>adjustmentMode\<close> are not members of the returned object, so
  the screen gets \<^verbatim>\<open>undefined\<close> for the three; the \<^verbatim>\<open>Practice\<close> component misses three
  more.
\<close>

theorem PracticeScreen_destructures_missing_members:
  "destructure usePractice_return ''askFollowUpQuestion'' = None
   \<and> destructure usePractice_return ''complexityChange'' = None
   \<and> destructure usePractice_return ''adjustmentMode'' = None
   \<and> filter (\<lambda>k. destructure usePractice_return k = None) PracticeScreen_destructured
       = [''complexityChange'', ''adjustmentMode'', ''askFollowUpQuestion'']
   \<and> filter (\<lambda>k. destructure usePractice_return k = None) Practice_destructured
       = [''complexityChange'', ''adjustmentMode'', ''showAdjustmentModal'',
          ''setShowAdjustmentModal'', ''enterAdjustmentMode'', ''askFollowUpQuestion'']"
  by (simp add: destructure_def usePractice_return_def PracticeScreen_destructured_def
      Practice_destructured_def)

subsection \<open>Difficulty adjustment\<close>











































































end
